theory Spec2Isabelle
  imports Main
begin

section \<open>Node conditions (k8s.io/api/core/v1, as far as the handler reads them)\<close>

text \<open>
  \<^verbatim>\<open>corev1.NodeConditionType\<close> and \<^verbatim>\<open>corev1.ConditionStatus\<close> are Go string types, so
  any string can occur in either field. \<^verbatim>\<open>metav1.Time\<close> is kept abstract as an integer
  time stamp.
\<close>

type_synonym Time = int

record NodeCondition =
  Type :: string
  Status :: string
  LastHeartbeatTime :: Time
  LastTransitionTime :: Time
  Reason :: string
  Message :: string

text \<open>
  Of \<^verbatim>\<open>corev1.Node\<close> only the name and \<^verbatim>\<open>node.Status.Conditions\<close> are read or written
  by the handler.
\<close>

record Node =
  Name :: string
  Conditions :: "NodeCondition list"

definition ConditionTrue :: string where
  "ConditionTrue = ''True''"

definition ConditionFalse :: string where
  "ConditionFalse = ''False''"

definition ConditionUnknown :: string where
  "ConditionUnknown = ''Unknown''"

definition terminatingConditionType :: string where
  "terminatingConditionType = ''Terminating''"

definition terminationRequestedReason :: string where
  "terminationRequestedReason = ''TerminationRequested''"

definition terminationMessage :: string where
  "terminationMessage = ''The cloud provider has marked this instance for termination''"

section \<open>The condition merge\<close>

text \<open>
  \<^verbatim>\<open>nodeHasTerminationCondition\<close>: a loop over the conditions that returns at the first
  condition of the terminating type.
\<close>

fun hasTerminationCondition :: "NodeCondition list \<Rightarrow> bool" where
  "hasTerminationCondition [] = False"
| "hasTerminationCondition (condition # rest) =
     (if Type condition = terminatingConditionType then True
      else hasTerminationCondition rest)"

definition nodeHasTerminationCondition :: "Node \<Rightarrow> bool" where
  "nodeHasTerminationCondition node = hasTerminationCondition (Conditions node)"

text \<open>The condition value built at the top of \<^verbatim>\<open>addNodeTerminationCondition\<close>.\<close>

definition terminatingCondition :: "Time \<Rightarrow> NodeCondition" where
  "terminatingCondition now =
     \<lparr> Type = terminatingConditionType,
       Status = ConditionTrue,
       LastHeartbeatTime = now,
       LastTransitionTime = now,
       Reason = terminationRequestedReason,
       Message = terminationMessage \<rparr>"

text \<open>
  The second loop of \<^verbatim>\<open>addNodeTerminationCondition\<close>: \<open>conditions\<close> is the slice being
  built, the third argument is what is left of \<^verbatim>\<open>node.Status.Conditions\<close>.
\<close>

fun mergeConditions ::
  "NodeCondition \<Rightarrow> NodeCondition list \<Rightarrow> NodeCondition list \<Rightarrow> NodeCondition list" where
  "mergeConditions tc conditions [] = conditions"
| "mergeConditions tc conditions (condition # rest) =
     (if Type condition \<noteq> terminatingConditionType
        then mergeConditions tc (conditions @ [condition]) rest
      else if Status condition = ConditionTrue
        then mergeConditions tc (conditions @ [condition]) rest
      else mergeConditions tc (conditions @ [tc]) rest)"

text \<open>
  \<^verbatim>\<open>addNodeTerminationCondition\<close>; the clock read by \<^verbatim>\<open>metav1.Now()\<close> is the argument
  \<open>now\<close>, the mutated node is returned.
\<close>

definition addNodeTerminationCondition :: "Time \<Rightarrow> Node \<Rightarrow> Node" where
  "addNodeTerminationCondition now node =
     (let terminatingCondition = terminatingCondition now in
      if \<not> nodeHasTerminationCondition node
        then node\<lparr>Conditions := Conditions node @ [terminatingCondition]\<rparr>
      else node\<lparr>Conditions := mergeConditions terminatingCondition [] (Conditions node)\<rparr>)"

text \<open>Number of conditions of the terminating type in a condition list.\<close>

definition countTerminating :: "NodeCondition list \<Rightarrow> nat" where
  "countTerminating cs = length (filter (\<lambda>c. Type c = terminatingConditionType) cs)"

text \<open>What the merge loop does to one condition.\<close>

definition mergeOne :: "NodeCondition \<Rightarrow> NodeCondition \<Rightarrow> NodeCondition" where
  "mergeOne tc condition =
     (if Type condition = terminatingConditionType \<and> Status condition \<noteq> ConditionTrue
      then tc else condition)"

section \<open>The environment of a handler run\<close>

text \<open>
  A Go \<^verbatim>\<open>error\<close> is represented by the text that its \<^verbatim>\<open>Error()\<close> method returns; a
  function returning \<^verbatim>\<open>error\<close> returns \<open>None\<close> for \<^verbatim>\<open>nil\<close>, and a function returning
  \<^verbatim>\<open>(v, err)\<close> returns \<open>Inl err\<close> or \<open>Inr v\<close>.
\<close>

type_synonym error = string

record Request =
  Method :: string
  URL :: string
  Header :: "(string \<times> string) list"

text \<open>
  Of \<^verbatim>\<open>http.Response\<close> the handlers read the status code and the body; \<open>Body\<close> is what
  \<^verbatim>\<open>ioutil.ReadAll(resp.Body)\<close> returns.
\<close>

record Response =
  StatusCode :: int
  Body :: "error + string"

record events =
  EventType :: string

record scheduledEvents =
  Events :: "events list"

text \<open>The fields of the three handler structs that \<^verbatim>\<open>run\<close> reads (the three are alike).\<close>

record Handler =
  pollInterval :: int
  nodeName :: string
  namespace :: string

text \<open>What a run does to the outside world, in order.\<close>

datatype Event =
  HttpGet string
| HttpDo Request
| Wait
| NodeGet string
| StatusUpdate Node

text \<open>
  Everything outside the repository that a run calls. The HTTP functions take the number
  of round trips made so far, so that the metadata endpoint may answer differently each
  time. \<open>stopAfter\<close> is the number of interval ticks that the polling loop receives before
  it observes the closed stop channel.
\<close>

record Env =
  httpGet :: "nat \<Rightarrow> string \<Rightarrow> error + Response"
  httpNewRequest :: "string \<Rightarrow> string \<Rightarrow> error + Request"
  httpDo :: "nat \<Rightarrow> Request \<Rightarrow> error + Response"
  jsonUnmarshal :: "string \<Rightarrow> error + scheduledEvents"
  clientGet :: "string \<Rightarrow> error + Node"
  clientStatusUpdate :: "Node \<Rightarrow> error option"
  metav1Now :: Time
  stopAfter :: nat

record State =
  requests :: nat
  trace :: "Event list"

definition initState :: State where
  "initState = \<lparr> requests = 0, trace = [] \<rparr>"

definition emit :: "Event \<Rightarrow> State \<Rightarrow> State" where
  "emit e s = s\<lparr>trace := trace s @ [e]\<rparr>"

definition roundTrip :: "Event \<Rightarrow> State \<Rightarrow> State" where
  "roundTrip e s = s\<lparr>requests := Suc (requests s), trace := trace s @ [e]\<rparr>"

section \<open>Formatting\<close>

text \<open>The verb \<^verbatim>\<open>%d\<close> of \<^verbatim>\<open>fmt\<close> on an integer.\<close>

fun showNat :: "nat \<Rightarrow> string" where
  "showNat n =
     (if n < 10 then [''0123456789'' ! n]
      else showNat (n div 10) @ [''0123456789'' ! (n mod 10)])"

definition showInt :: "int \<Rightarrow> string" where
  "showInt i = (if i < 0 then ''-'' @ showNat (nat (- i)) else showNat (nat i))"

text \<open>
  The verb \<^verbatim>\<open>%q\<close> on a string without characters that Go escapes; it is only applied
  to the endpoint constants below.
\<close>

definition quote :: "string \<Rightarrow> string" where
  "quote s = [CHR 0x22] @ s @ [CHR 0x22]"

section \<open>Reconciliation\<close>

definition markNodeForDeletion :: "Env \<Rightarrow> string \<Rightarrow> State \<Rightarrow> error option \<times> State" where
  "markNodeForDeletion env name s =
     (let s1 = emit (NodeGet name) s in
      case clientGet env name of
        Inl err \<Rightarrow> (Some (''error fetching node: '' @ err), s1)
      | Inr node \<Rightarrow>
          (let node' = addNodeTerminationCondition (metav1Now env) node;
               s2 = emit (StatusUpdate node') s1 in
           case clientStatusUpdate env node' of
             Some err \<Rightarrow> (Some ''error updating node status'', s2)
           | None \<Rightarrow> (None, s2)))"

section \<open>The polling loop\<close>

definition ErrWaitTimeout :: error where
  "ErrWaitTimeout = ''timed out waiting for the condition''"

type_synonym ConditionFunc = "State \<Rightarrow> (error + bool) \<times> State"

text \<open>
  Modelled from the spec: \<^verbatim>\<open>wait.PollImmediateUntil\<close> belongs to k8s.io/apimachinery and
  is not among the sources. Section 4.2 of the specification: the first probe fires
  immediately, later probes follow one interval wait each, and the loop exits when a probe
  reports terminating, when a probe fails, or when the stop is observed at an interval
  wait. In the last case the library returns \<^verbatim>\<open>ErrWaitTimeout\<close>, so that \<^verbatim>\<open>run\<close> returns
  before it reconciles. \<open>waitFor\<close> is the loop over the interval ticks; its first argument
  is the number of ticks left before the stop is observed.
\<close>

fun waitFor :: "nat \<Rightarrow> ConditionFunc \<Rightarrow> State \<Rightarrow> error option \<times> State" where
  "waitFor 0 condition s = (Some ErrWaitTimeout, s)"
| "waitFor (Suc n) condition s =
     (case condition (emit Wait s) of
        (Inl err, s') \<Rightarrow> (Some err, s')
      | (Inr done, s') \<Rightarrow> if done then (None, s') else waitFor n condition s')"

text \<open>
  Modelled from the spec: the entry point of the library loop, which calls the condition
  once before the first interval wait (``first probe fires immediately'').
\<close>

definition PollImmediateUntil :: "nat \<Rightarrow> ConditionFunc \<Rightarrow> State \<Rightarrow> error option \<times> State" where
  "PollImmediateUntil ticks condition s =
     (case condition s of
        (Inl err, s') \<Rightarrow> (Some err, s')
      | (Inr done, s') \<Rightarrow> if done then (None, s') else waitFor ticks condition s')"

section \<open>Variant A: the status code (aws.go)\<close>

definition awsTerminationEndpointURL :: string where
  "awsTerminationEndpointURL = ''http://169.254.169.254/latest/meta-data/spot/termination-time''"

text \<open>
  The function literal passed to the polling loop. In all three variants \<^verbatim>\<open>url.Parse\<close> is
  applied to the endpoint constant, which is a well-formed URL, so the panic after it is
  never reached and \<^verbatim>\<open>pollURL.String()\<close> is the constant again.
\<close>

definition awsCondition :: "Env \<Rightarrow> ConditionFunc" where
  "awsCondition env s =
     (let pollURL = awsTerminationEndpointURL;
          s' = roundTrip (HttpGet pollURL) s in
      case httpGet env (requests s) pollURL of
        Inl err \<Rightarrow> (Inl (''could not get URL '' @ quote pollURL @ '': '' @ err), s')
      | Inr resp \<Rightarrow>
          if StatusCode resp = 404 then (Inr False, s')
          else if StatusCode resp = 200 then (Inr True, s')
          else (Inl (''unexpected status: '' @ showInt (StatusCode resp)), s'))"

definition awsRun :: "Env \<Rightarrow> Handler \<Rightarrow> State \<Rightarrow> error option \<times> State" where
  "awsRun env h s =
     (case PollImmediateUntil (stopAfter env) (awsCondition env) s of
        (Some err, s') \<Rightarrow> (Some (''error polling termination endpoint: '' @ err), s')
      | (None, s') \<Rightarrow>
          (case markNodeForDeletion env (nodeName h) s' of
             (Some err, s'') \<Rightarrow> (Some (''error marking machine: '' @ err), s'')
           | (None, s'') \<Rightarrow> (None, s'')))"

section \<open>Variant B: scheduled events (the Azure handler)\<close>

definition azureTerminationEndpointURL :: string where
  "azureTerminationEndpointURL =
     ''http://169.254.169.254/metadata/scheduledevents?api-version=2019-08-01''"

definition preemptEventType :: string where
  "preemptEventType = ''Preempt''"

text \<open>\<^verbatim>\<open>req.Header.Add\<close>; both keys used are already in canonical form.\<close>

definition headerAdd :: "string \<Rightarrow> string \<Rightarrow> Request \<Rightarrow> Request" where
  "headerAdd key val req = req\<lparr>Header := Header req @ [(key, val)]\<rparr>"

text \<open>The loop over \<^verbatim>\<open>s.Events\<close>, which returns at the first preempt event.\<close>

fun anyPreempt :: "events list \<Rightarrow> bool" where
  "anyPreempt [] = False"
| "anyPreempt (event # rest) =
     (if EventType event = preemptEventType then True else anyPreempt rest)"

definition azureCondition :: "Env \<Rightarrow> ConditionFunc" where
  "azureCondition env s =
     (let pollURL = azureTerminationEndpointURL in
      case httpNewRequest env ''GET'' pollURL of
        Inl err \<Rightarrow> (Inl (''could not create request '' @ quote pollURL @ '': '' @ err), s)
      | Inr req0 \<Rightarrow>
          (let req = headerAdd ''Metadata'' ''true'' req0;
               s' = roundTrip (HttpDo req) s in
           case httpDo env (requests s) req of
             Inl err \<Rightarrow> (Inl (''could not get URL '' @ quote pollURL @ '': '' @ err), s')
           | Inr resp \<Rightarrow>
               (case Body resp of
                  Inl err \<Rightarrow> (Inl (''failed to read responce body: '' @ err), s')
                | Inr bodyBytes \<Rightarrow>
                    (case jsonUnmarshal env bodyBytes of
                       Inl err \<Rightarrow> (Inl (''failed to unmarshal responce body: '' @ err), s')
                     | Inr se \<Rightarrow>
                         if anyPreempt (Events se) then (Inr True, s')
                         else (Inr False, s')))))"

definition azureRun :: "Env \<Rightarrow> Handler \<Rightarrow> State \<Rightarrow> error option \<times> State" where
  "azureRun env h s =
     (case PollImmediateUntil (stopAfter env) (azureCondition env) s of
        (Some err, s') \<Rightarrow> (Some (''error polling termination endpoint: '' @ err), s')
      | (None, s') \<Rightarrow>
          (case markNodeForDeletion env (nodeName h) s' of
             (Some err, s'') \<Rightarrow> (Some (''error marking machine: '' @ err), s'')
           | (None, s'') \<Rightarrow> (None, s'')))"

section \<open>Variant C: plain text (gcp.go)\<close>

definition gcpTerminationEndpointURL :: string where
  "gcpTerminationEndpointURL = ''http://169.254.169.254/computeMetadata/v1/instance/preempted''"

definition gcpCondition :: "Env \<Rightarrow> ConditionFunc" where
  "gcpCondition env s =
     (let pollURL = gcpTerminationEndpointURL in
      case httpNewRequest env ''GET'' pollURL of
        Inl err \<Rightarrow> (Inl (''could not create request '' @ quote pollURL @ '': '' @ err), s)
      | Inr req0 \<Rightarrow>
          (let req = headerAdd ''Metadata-Flavor'' ''Google'' req0;
               s' = roundTrip (HttpDo req) s in
           case httpDo env (requests s) req of
             Inl err \<Rightarrow> (Inl (''could not get URL '' @ quote pollURL @ '': '' @ err), s')
           | Inr resp \<Rightarrow>
               (case Body resp of
                  Inl err \<Rightarrow> (Inl (''failed to read responce body: '' @ err), s')
                | Inr bodyBytes \<Rightarrow>
                    if bodyBytes = ''TRUE'' then (Inr True, s')
                    else (Inr False, s'))))"

definition gcpRun :: "Env \<Rightarrow> Handler \<Rightarrow> State \<Rightarrow> error option \<times> State" where
  "gcpRun env h s =
     (case PollImmediateUntil (stopAfter env) (gcpCondition env) s of
        (Some err, s') \<Rightarrow> (Some (''error polling termination endpoint: '' @ err), s')
      | (None, s') \<Rightarrow>
          (case markNodeForDeletion env (nodeName h) s' of
             (Some err, s'') \<Rightarrow> (Some (''error marking machine: '' @ err), s'')
           | (None, s'') \<Rightarrow> (None, s'')))"

section \<open>The supervisor\<close>

text \<open>
  \<^verbatim>\<open>Run\<close> starts \<^verbatim>\<open>run\<close> in a goroutine and selects between the stop channel and the
  channel that carries the result of \<^verbatim>\<open>run\<close>. Which case the \<^verbatim>\<open>select\<close> takes is decided
  by the scheduler; here it is an argument.
\<close>

datatype Selected = StopReceived | ErrReceived

definition Run :: "Selected \<Rightarrow> error option \<times> State \<Rightarrow> error option" where
  "Run sel result = (case sel of StopReceived \<Rightarrow> None | ErrReceived \<Rightarrow> fst result)"

definition awsHandlerRun :: "Selected \<Rightarrow> Env \<Rightarrow> Handler \<Rightarrow> error option" where
  "awsHandlerRun sel env h = Run sel (awsRun env h initState)"

definition azureHandlerRun :: "Selected \<Rightarrow> Env \<Rightarrow> Handler \<Rightarrow> error option" where
  "azureHandlerRun sel env h = Run sel (azureRun env h initState)"

definition gcpHandlerRun :: "Selected \<Rightarrow> Env \<Rightarrow> Handler \<Rightarrow> error option" where
  "gcpHandlerRun sel env h = Run sel (gcpRun env h initState)"

section \<open>Auxiliary notions for the statements\<close>

text \<open>The state after \<open>k\<close> further rounds of one interval wait and one round trip each.\<close>

definition rounds :: "nat \<Rightarrow> Event \<Rightarrow> State \<Rightarrow> State" where
  "rounds k e s =
     s\<lparr>requests := requests s + k, trace := trace s @ concat (replicate k [Wait, e])\<rparr>"

text \<open>The state of a run that has made \<open>k + 1\<close> probes and nothing else.\<close>

definition polled :: "nat \<Rightarrow> Event \<Rightarrow> State" where
  "polled k e = \<lparr> requests = Suc k, trace = e # concat (replicate k [Wait, e]) \<rparr>"

definition isStatusUpdate :: "Event \<Rightarrow> bool" where
  "isStatusUpdate e = (case e of StatusUpdate _ \<Rightarrow> True | _ \<Rightarrow> False)"

definition isProbe :: "Event \<Rightarrow> bool" where
  "isProbe e = (case e of HttpGet _ \<Rightarrow> True | HttpDo _ \<Rightarrow> True | _ \<Rightarrow> False)"

text \<open>What the probe reports when it is called after \<open>i\<close> round trips.\<close>

definition probeResult :: "ConditionFunc \<Rightarrow> nat \<Rightarrow> error + bool" where
  "probeResult condition i = fst (condition \<lparr> requests = i, trace = [] \<rparr>)"

text \<open>The events of one reconciliation: one fetch, followed by at most one status write.\<close>

definition reconciledOnce :: "string \<Rightarrow> Event list \<Rightarrow> bool" where
  "reconciledOnce name tr =
     (case tr of
        [NodeGet n] \<Rightarrow> n = name
      | [NodeGet n, StatusUpdate _] \<Rightarrow> n = name
      | _ \<Rightarrow> False)"

text \<open>
  A probe is uniform when every call makes one round trip, recorded as \<open>e\<close>, and reports
  what depends on the number of earlier round trips only.
\<close>

definition uniformProbe :: "ConditionFunc \<Rightarrow> Event \<Rightarrow> bool" where
  "uniformProbe condition e =
     (\<forall>s. condition s = (probeResult condition (requests s), roundTrip e s))"

text \<open>The tail that the three \<^verbatim>\<open>run\<close> methods share: reconciliation after the loop.\<close>

definition finish :: "Env \<Rightarrow> Handler \<Rightarrow> State \<Rightarrow> error option \<times> State" where
  "finish env h s' =
     (case markNodeForDeletion env (nodeName h) s' of
        (Some err, s'') \<Rightarrow> (Some (''error marking machine: '' @ err), s'')
      | (None, s'') \<Rightarrow> (None, s''))"

section \<open>Example values\<close>

definition exReady :: NodeCondition where
  "exReady =
     \<lparr> Type = ''Ready'', Status = ''True'', LastHeartbeatTime = 3, LastTransitionTime = 1,
       Reason = ''KubeletReady'', Message = ''kubelet is posting ready status'' \<rparr>"

definition exDiskPressure :: NodeCondition where
  "exDiskPressure =
     \<lparr> Type = ''DiskPressure'', Status = ''False'', LastHeartbeatTime = 3,
       LastTransitionTime = 1, Reason = ''KubeletHasNoDiskPressure'',
       Message = ''kubelet has no disk pressure'' \<rparr>"

text \<open>A terminating condition written by somebody else, with the given status.\<close>

definition exTerminating :: "string \<Rightarrow> NodeCondition" where
  "exTerminating st =
     \<lparr> Type = ''Terminating'', Status = st, LastHeartbeatTime = 2, LastTransitionTime = 2,
       Reason = ''Maintenance'', Message = ''scheduled maintenance'' \<rparr>"

definition exNode :: "NodeCondition list \<Rightarrow> Node" where
  "exNode cs = \<lparr> Name = ''node-1'', Conditions = cs \<rparr>"

definition exHandler :: Handler where
  "exHandler = \<lparr> pollInterval = 5000000000, nodeName = ''node-1'', namespace = [] \<rparr>"

definition exPreemptBody :: string where
  \<open>exPreemptBody = ''{"Events":[{"EventType":"Preempt"}]}''\<close>

definition exRebootBody :: string where
  \<open>exRebootBody = ''{"Events":[{"EventType":"Reboot"}]}''\<close>

definition exUnmarshal :: "string \<Rightarrow> error + scheduledEvents" where
  "exUnmarshal body =
     (if body = exPreemptBody then Inr \<lparr> Events = [\<lparr> EventType = ''Preempt'' \<rparr>] \<rparr>
      else if body = exRebootBody then Inr \<lparr> Events = [\<lparr> EventType = ''Reboot'' \<rparr>] \<rparr>
      else Inl ''unexpected end of JSON input'')"

text \<open>
  An endpoint that answers the first \<open>k\<close> requests with \<open>quiet\<close> and every later one
  with \<open>final\<close>; for requests made with \<^verbatim>\<open>Do\<close> the two are bodies of a 200 response, for
  requests made with \<^verbatim>\<open>Get\<close> they are pairs of status code and body.
\<close>

definition exEnv ::
  "nat \<Rightarrow> int \<Rightarrow> int \<Rightarrow> string \<Rightarrow> string \<Rightarrow> NodeCondition list \<Rightarrow> error option \<Rightarrow> Env" where
  "exEnv k quietCode finalCode quiet final cs upd =
     \<lparr> httpGet = (\<lambda>i url.
         Inr \<lparr> StatusCode = (if i < k then quietCode else finalCode), Body = Inr [] \<rparr>),
       httpNewRequest = (\<lambda>method url. Inr \<lparr> Method = method, URL = url, Header = [] \<rparr>),
       httpDo = (\<lambda>i req.
         Inr \<lparr> StatusCode = 200, Body = Inr (if i < k then quiet else final) \<rparr>),
       jsonUnmarshal = exUnmarshal,
       clientGet = (\<lambda>name. if name = ''node-1'' then Inr (exNode cs) else Inl ''not found''),
       clientStatusUpdate = (\<lambda>node. upd),
       metav1Now = 9,
       stopAfter = 10 \<rparr>"

section \<open>Properties of the merge\<close>

declare showNat.simps [simp del]

lemma hasTerminationCondition_iff:
  "hasTerminationCondition cs = (\<exists>c \<in> set cs. Type c = terminatingConditionType)"
  by (induction cs) auto

lemma hasTerminationCondition_count:
  "hasTerminationCondition cs = (0 < countTerminating cs)"
  by (induction cs) (auto simp: countTerminating_def)

lemma mergeConditions_map:
  "mergeConditions tc acc cs = acc @ map (mergeOne tc) cs"
  by (induction cs arbitrary: acc) (auto simp: mergeOne_def)

lemma mergeOne_Type:
  "Type tc = terminatingConditionType \<Longrightarrow>
   (Type (mergeOne tc c) = terminatingConditionType) = (Type c = terminatingConditionType)"
  by (simp add: mergeOne_def)

lemma countTerminating_mergeOne:
  "Type tc = terminatingConditionType \<Longrightarrow>
   countTerminating (map (mergeOne tc) cs) = countTerminating cs"
  by (induction cs) (auto simp: countTerminating_def mergeOne_def)

lemma terminatingCondition_Type [simp]:
  "Type (terminatingCondition now) = terminatingConditionType"
  by (simp add: terminatingCondition_def)

lemma terminatingCondition_Status [simp]:
  "Status (terminatingCondition now) = ConditionTrue"
  by (simp add: terminatingCondition_def)

lemma Conditions_add_absent:
  "\<not> nodeHasTerminationCondition node \<Longrightarrow>
   Conditions (addNodeTerminationCondition now node) =
     Conditions node @ [terminatingCondition now]"
  by (simp add: addNodeTerminationCondition_def)

lemma Conditions_add_present:
  "nodeHasTerminationCondition node \<Longrightarrow>
   Conditions (addNodeTerminationCondition now node) =
     map (mergeOne (terminatingCondition now)) (Conditions node)"
  by (simp add: addNodeTerminationCondition_def mergeConditions_map)

lemma map_mergeOne_id:
  "\<forall>c \<in> set cs. Type c = terminatingConditionType \<longrightarrow> Status c = ConditionTrue \<Longrightarrow>
   map (mergeOne tc) cs = cs"
  by (induction cs) (auto simp: mergeOne_def)

lemma add_all_True:
  "\<forall>c \<in> set (Conditions (addNodeTerminationCondition now node)).
     Type c = terminatingConditionType \<longrightarrow> Status c = ConditionTrue"
proof (cases "nodeHasTerminationCondition node")
  case True
  then show ?thesis
    by (auto simp: Conditions_add_present mergeOne_def)
next
  case False
  then show ?thesis
    by (auto simp: Conditions_add_absent nodeHasTerminationCondition_def
        hasTerminationCondition_iff)
qed

lemma add_has:
  "nodeHasTerminationCondition (addNodeTerminationCondition now node)"
proof (cases "nodeHasTerminationCondition node")
  case True
  then have "0 < countTerminating (Conditions node)"
    by (simp add: nodeHasTerminationCondition_def hasTerminationCondition_count)
  with True show ?thesis
    by (simp add: nodeHasTerminationCondition_def hasTerminationCondition_count
        Conditions_add_present countTerminating_mergeOne)
next
  case False
  then show ?thesis
    by (simp add: nodeHasTerminationCondition_def hasTerminationCondition_iff
        Conditions_add_absent)
qed

lemma add_noop:
  assumes "nodeHasTerminationCondition node"
    and "\<forall>c \<in> set (Conditions node). Type c = terminatingConditionType \<longrightarrow> Status c = ConditionTrue"
  shows "addNodeTerminationCondition now node = node"
proof -
  have "mergeConditions (terminatingCondition now) [] (Conditions node) = Conditions node"
    using assms(2) by (simp add: mergeConditions_map map_mergeOne_id)
  with assms(1) show ?thesis
    by (simp add: addNodeTerminationCondition_def)
qed

lemma add_origin:
  "c \<in> set (Conditions (addNodeTerminationCondition now node)) \<Longrightarrow>
   c = terminatingCondition now \<or> c \<in> set (Conditions node)"
  by (cases "nodeHasTerminationCondition node")
     (auto simp: Conditions_add_present Conditions_add_absent mergeOne_def split: if_splits)

lemmas ex_defs = exNode_def exReady_def exDiskPressure_def exTerminating_def
  terminatingCondition_def terminatingConditionType_def ConditionTrue_def ConditionFalse_def
  ConditionUnknown_def
  terminationRequestedReason_def terminationMessage_def

lemmas merge_defs = addNodeTerminationCondition_def nodeHasTerminationCondition_def
  countTerminating_def Let_def

section \<open>Properties of the polling loop\<close>

lemma concat_replicate_snoc:
  "concat (replicate k xs) @ xs = xs @ concat (replicate k xs)"
  by (induction k) simp_all

lemma rounds_Suc:
  "rounds (Suc k) e s = rounds k e (roundTrip e (emit Wait s))"
  by (simp add: rounds_def roundTrip_def emit_def)

lemma rounds_0: "rounds 0 e s = s"
  by (simp add: rounds_def)

lemma requests_rounds: "requests (rounds k e s) = requests s + k"
  by (simp add: rounds_def)

lemma waitFor_prefix:
  assumes "uniformProbe condition e"
  shows "\<forall>j<k. probeResult condition (requests s + j) = Inr False \<Longrightarrow> k \<le> n \<Longrightarrow>
         waitFor n condition s = waitFor (n - k) condition (rounds k e s)"
proof (induction k arbitrary: n s)
  case 0
  then show ?case by (simp add: rounds_0)
next
  case (Suc k)
  from Suc.prems(2) obtain m where n: "n = Suc m" and km: "k \<le> m"
    by (cases n) auto
  let ?s1 = "roundTrip e (emit Wait s)"
  have r0: "probeResult condition (requests s) = Inr False"
    using Suc.prems(1) by force
  have c: "condition (emit Wait s) = (Inr False, ?s1)"
    using assms r0 by (simp add: uniformProbe_def emit_def)
  have rs: "requests ?s1 = Suc (requests s)"
    by (simp add: roundTrip_def emit_def)
  have "\<forall>j<k. probeResult condition (requests ?s1 + j) = Inr False"
    using Suc.prems(1) rs by auto
  from Suc.IH [OF this km] c n show ?case
    by (simp add: rounds_Suc)
qed

lemma polled_0: "polled 0 e = roundTrip e initState"
  by (simp add: polled_def roundTrip_def initState_def)

lemma polled_Suc:
  "polled (Suc k) e = roundTrip e (emit Wait (rounds k e (roundTrip e initState)))"
  by (simp add: polled_def roundTrip_def initState_def rounds_def emit_def
      concat_replicate_snoc)

lemma PollImmediateUntil_prefix:
  assumes u: "uniformProbe condition e"
    and false: "\<forall>j<k. probeResult condition j = Inr False"
    and last: "probeResult condition k \<noteq> Inr False"
    and ticks: "k \<le> n"
  shows "PollImmediateUntil n condition initState =
           ((case probeResult condition k of Inl err \<Rightarrow> Some err | Inr _ \<Rightarrow> None), polled k e)"
proof (cases k)
  case 0
  have "condition initState = (probeResult condition 0, roundTrip e initState)"
    using u by (simp add: uniformProbe_def initState_def)
  with last 0 show ?thesis
    by (auto simp: PollImmediateUntil_def polled_0 split: sum.splits)
next
  case (Suc k')
  let ?s0 = "roundTrip e initState"
  have "condition initState = (Inr False, ?s0)"
    using u false Suc by (simp add: uniformProbe_def initState_def)
  then have 1: "PollImmediateUntil n condition initState = waitFor n condition ?s0"
    by (simp add: PollImmediateUntil_def)
  have r0: "requests ?s0 = 1"
    by (simp add: roundTrip_def initState_def)
  have "\<forall>j<k'. probeResult condition (requests ?s0 + j) = Inr False"
    using false Suc r0 by simp
  moreover have "k' \<le> n" using ticks Suc by simp
  ultimately have 2: "waitFor n condition ?s0 = waitFor (n - k') condition (rounds k' e ?s0)"
    by (rule waitFor_prefix [OF u])
  obtain m where m: "n - k' = Suc m"
    using ticks Suc by (cases "n - k'") auto
  let ?s1 = "rounds k' e ?s0"
  have "requests (emit Wait ?s1) = k"
    using Suc r0 by (simp add: emit_def requests_rounds)
  then have "condition (emit Wait ?s1) = (probeResult condition k, polled k e)"
    using u Suc by (simp add: uniformProbe_def polled_Suc)
  with last have "waitFor (Suc m) condition ?s1 =
      ((case probeResult condition k of Inl err \<Rightarrow> Some err | Inr _ \<Rightarrow> None), polled k e)"
    by (auto split: sum.splits)
  with 1 2 m show ?thesis by simp
qed

lemma aws_uniform:
  "uniformProbe (awsCondition env) (HttpGet awsTerminationEndpointURL)"
  by (simp add: uniformProbe_def probeResult_def awsCondition_def roundTrip_def Let_def
      split: sum.splits)

lemma azure_uniform:
  "httpNewRequest env ''GET'' azureTerminationEndpointURL = Inr req0 \<Longrightarrow>
   uniformProbe (azureCondition env) (HttpDo (headerAdd ''Metadata'' ''true'' req0))"
  by (simp add: uniformProbe_def probeResult_def azureCondition_def roundTrip_def Let_def
      split: sum.splits)

lemma gcp_uniform:
  "httpNewRequest env ''GET'' gcpTerminationEndpointURL = Inr req0 \<Longrightarrow>
   uniformProbe (gcpCondition env) (HttpDo (headerAdd ''Metadata-Flavor'' ''Google'' req0))"
  by (simp add: uniformProbe_def probeResult_def gcpCondition_def roundTrip_def Let_def
      split: sum.splits)

lemma azure_request_made:
  "probeResult (azureCondition env) k = Inr b \<Longrightarrow>
   \<exists>req0. httpNewRequest env ''GET'' azureTerminationEndpointURL = Inr req0"
  by (auto simp: probeResult_def azureCondition_def Let_def split: sum.splits)

lemma gcp_request_made:
  "probeResult (gcpCondition env) k = Inr b \<Longrightarrow>
   \<exists>req0. httpNewRequest env ''GET'' gcpTerminationEndpointURL = Inr req0"
  by (auto simp: probeResult_def gcpCondition_def Let_def split: sum.splits)

lemma markNodeForDeletion_trace:
  "\<exists>tr. trace (snd (markNodeForDeletion env name s)) = trace s @ tr \<and>
        reconciledOnce name tr \<and>
        requests (snd (markNodeForDeletion env name s)) = requests s"
  by (auto simp: markNodeForDeletion_def emit_def reconciledOnce_def Let_def
      split: sum.splits option.splits)

lemma snd_finish: "snd (finish env h s) = snd (markNodeForDeletion env (nodeName h) s)"
  by (simp add: finish_def split: prod.splits option.splits)

lemma finish_polled:
  shows "\<exists>tr.
           trace (snd (finish env h (polled k e))) = e # concat (replicate k [Wait, e]) @ tr \<and>
           reconciledOnce (nodeName h) tr \<and>
           requests (snd (finish env h (polled k e))) = Suc k"
proof -
  obtain tr where "trace (snd (markNodeForDeletion env (nodeName h) (polled k e))) = trace (polled k e) @ tr"
    and "reconciledOnce (nodeName h) tr"
    and "requests (snd (markNodeForDeletion env (nodeName h) (polled k e))) = requests (polled k e)"
    using markNodeForDeletion_trace by blast
  then show ?thesis
    by (auto simp: snd_finish polled_def)
qed

lemma run_terminating:
  assumes u: "uniformProbe condition e"
    and false: "\<forall>j<k. probeResult condition j = Inr False"
    and last: "probeResult condition k = Inr True"
    and ticks: "k \<le> n"
  shows "PollImmediateUntil n condition initState = (None, polled k e)"
  using PollImmediateUntil_prefix [OF u false _ ticks] last by simp

lemma run_failing:
  assumes u: "uniformProbe condition e"
    and false: "\<forall>j<k. probeResult condition j = Inr False"
    and last: "probeResult condition k = Inl err"
    and ticks: "k \<le> n"
  shows "PollImmediateUntil n condition initState = (Some err, polled k e)"
  using PollImmediateUntil_prefix [OF u false _ ticks] last by simp

lemma awsRun_finish:
  "PollImmediateUntil (stopAfter env) (awsCondition env) s = (None, s') \<Longrightarrow>
   awsRun env h s = finish env h s'"
  by (simp add: awsRun_def finish_def)

lemma azureRun_finish:
  "PollImmediateUntil (stopAfter env) (azureCondition env) s = (None, s') \<Longrightarrow>
   azureRun env h s = finish env h s'"
  by (simp add: azureRun_def finish_def)

lemma gcpRun_finish:
  "PollImmediateUntil (stopAfter env) (gcpCondition env) s = (None, s') \<Longrightarrow>
   gcpRun env h s = finish env h s'"
  by (simp add: gcpRun_def finish_def)

lemma isProbe_simps [simp]: "isProbe (HttpGet u)" "isProbe (HttpDo r)" "\<not> isProbe Wait"
  by (simp_all add: isProbe_def)

lemma PollImmediateUntil_continue:
  assumes u: "uniformProbe condition e"
    and false: "\<forall>j<Suc i. probeResult condition j = Inr False"
    and ticks: "i \<le> n"
  shows "PollImmediateUntil n condition initState = waitFor (n - i) condition (polled i e)"
proof -
  let ?s0 = "roundTrip e initState"
  have "condition initState = (Inr False, ?s0)"
    using u false by (simp add: uniformProbe_def initState_def)
  then have 1: "PollImmediateUntil n condition initState = waitFor n condition ?s0"
    by (simp add: PollImmediateUntil_def)
  have r0: "requests ?s0 = 1"
    by (simp add: roundTrip_def initState_def)
  have "\<forall>j<i. probeResult condition (requests ?s0 + j) = Inr False"
    using false r0 by simp
  then have 2: "waitFor n condition ?s0 = waitFor (n - i) condition (rounds i e ?s0)"
    using ticks by (rule waitFor_prefix [OF u])
  have "rounds i e ?s0 = polled i e"
    by (simp add: rounds_def polled_def roundTrip_def initState_def)
  with 1 2 show ?thesis by simp
qed

lemma probeResult_fst:
  "uniformProbe condition e \<Longrightarrow> fst (condition s) = probeResult condition (requests s)"
  by (simp add: uniformProbe_def)

lemma aws_probe:
  "httpGet env (requests s) awsTerminationEndpointURL = Inr resp \<Longrightarrow>
   fst (awsCondition env s) =
     (if StatusCode resp = 404 then Inr False
      else if StatusCode resp = 200 then Inr True
      else Inl (''unexpected status: '' @ showInt (StatusCode resp)))"
  by (simp add: awsCondition_def Let_def)

lemma showInt_500: "showInt 500 = ''500''"
  by code_simp

lemmas env_defs = exEnv_def exUnmarshal_def exPreemptBody_def exRebootBody_def
  exHandler_def

lemma anyPreempt_iff:
  "anyPreempt es = (\<exists>e \<in> set es. EventType e = preemptEventType)"
  by (induction es) auto

lemma azure_probe:
  assumes "httpNewRequest env ''GET'' azureTerminationEndpointURL = Inr req0"
    and "httpDo env (requests s) (headerAdd ''Metadata'' ''true'' req0) = Inr resp"
    and "Body resp = Inr body"
  shows "fst (azureCondition env s) =
     (case jsonUnmarshal env body of
        Inl err \<Rightarrow> Inl (''failed to unmarshal responce body: '' @ err)
      | Inr se \<Rightarrow> Inr (\<exists>e \<in> set (Events se). EventType e = preemptEventType))"
  using assms
  by (simp add: azureCondition_def Let_def anyPreempt_iff split: sum.splits)

lemma gcp_probe:
  assumes "httpNewRequest env ''GET'' gcpTerminationEndpointURL = Inr req0"
    and "httpDo env (requests s) (headerAdd ''Metadata-Flavor'' ''Google'' req0) = Inr resp"
    and "Body resp = Inr body"
  shows "fst (gcpCondition env s) = Inr (body = ''TRUE'')"
  using assms by (simp add: gcpCondition_def Let_def)

section \<open>The claims about the merge\<close>

text \<open>
  Claim C1, as amended. When the node has no condition of the terminating type, the merge
  appends the new terminating condition at the end. When it has one, the merged list has
  the same length, holds a terminating condition at exactly the positions where the old
  list did, and keeps every other condition where it was. The number of terminating
  conditions after the merge is the number before it, or one if there was none; so it is at
  most one whenever the node had at most one.
\<close>

theorem merge_positions:
  "(\<not> nodeHasTerminationCondition node \<longrightarrow>
      Conditions (addNodeTerminationCondition now node) =
        Conditions node @ [terminatingCondition now]) \<and>
   (nodeHasTerminationCondition node \<longrightarrow>
      length (Conditions (addNodeTerminationCondition now node)) = length (Conditions node) \<and>
      (\<forall>i < length (Conditions node).
         (Type (Conditions (addNodeTerminationCondition now node) ! i) = terminatingConditionType)
           = (Type (Conditions node ! i) = terminatingConditionType) \<and>
         (Type (Conditions node ! i) \<noteq> terminatingConditionType \<longrightarrow>
            Conditions (addNodeTerminationCondition now node) ! i = Conditions node ! i))) \<and>
   countTerminating (Conditions (addNodeTerminationCondition now node)) =
     max 1 (countTerminating (Conditions node)) \<and>
   Name (addNodeTerminationCondition now node) = Name node"
proof (cases "nodeHasTerminationCondition node")
  case True
  then have pos: "0 < countTerminating (Conditions node)"
    by (simp add: nodeHasTerminationCondition_def hasTerminationCondition_count)
  have "\<forall>i < length (Conditions node).
         Type (Conditions node ! i) \<noteq> terminatingConditionType \<longrightarrow>
         mergeOne (terminatingCondition now) (Conditions node ! i) = Conditions node ! i"
    by (simp add: mergeOne_def)
  moreover have "Name (addNodeTerminationCondition now node) = Name node"
    by (simp add: addNodeTerminationCondition_def Let_def)
  ultimately show ?thesis using True pos
    by (simp add: Conditions_add_present mergeOne_Type countTerminating_mergeOne)
next
  case False
  then have "countTerminating (Conditions node) = 0"
    by (simp add: nodeHasTerminationCondition_def hasTerminationCondition_count)
  moreover have "Name (addNodeTerminationCondition now node) = Name node"
    by (simp add: addNodeTerminationCondition_def Let_def)
  ultimately show ?thesis using False
    by (simp add: Conditions_add_absent countTerminating_def)
qed

text \<open>
  The theorem of claim C1 at the two examples of the specification: the terminating
  condition with status False between two other conditions is replaced in place, and a node
  without one gets the new condition at the end.
\<close>

theorem merge_positions_witness:
  "nodeHasTerminationCondition (exNode [exReady, exTerminating ConditionFalse, exDiskPressure]) \<and>
   \<not> nodeHasTerminationCondition (exNode [exReady, exDiskPressure]) \<and>
   Conditions (addNodeTerminationCondition 9
       (exNode [exReady, exTerminating ConditionFalse, exDiskPressure])) =
     [exReady, terminatingCondition 9, exDiskPressure] \<and>
   Conditions (addNodeTerminationCondition 9 (exNode [exReady, exDiskPressure])) =
     [exReady, exDiskPressure, terminatingCondition 9]"
  using merge_positions [of "exNode [exReady, exTerminating ConditionFalse, exDiskPressure]" 9]
    merge_positions [of "exNode [exReady, exDiskPressure]" 9]
  by (simp add: merge_defs ex_defs)

text \<open>
  Claim C1 as stated fails: a node that carries two terminating conditions still carries
  two after the merge.
\<close>

theorem merge_duplicates_counterexample:
  "\<not> countTerminating (Conditions (addNodeTerminationCondition 9
         (exNode [exTerminating ConditionTrue, exReady, exTerminating ConditionFalse]))) \<le> 1"
  by (simp add: merge_defs ex_defs)

text \<open>
  Claim C2, as amended. When the node has a terminating condition and every terminating
  condition of the node has status True, the merge returns the node unchanged, whatever the
  clock says, and so does a second merge.
\<close>

theorem merge_noop:
  assumes "nodeHasTerminationCondition node"
    and "\<forall>c \<in> set (Conditions node).
           Type c = terminatingConditionType \<longrightarrow> Status c = ConditionTrue"
  shows "addNodeTerminationCondition now node = node \<and>
         addNodeTerminationCondition now' (addNodeTerminationCondition now node) = node"
  using assms by (simp add: add_noop)

text \<open>
  The theorem of claim C2 at a node with one terminating condition of status True.
\<close>

theorem merge_noop_witness:
  "nodeHasTerminationCondition (exNode [exReady, exTerminating ConditionTrue]) \<and>
   Type exReady \<noteq> terminatingConditionType \<and>
   Status (exTerminating ConditionTrue) = ConditionTrue \<and>
   addNodeTerminationCondition 9 (exNode [exReady, exTerminating ConditionTrue]) =
     exNode [exReady, exTerminating ConditionTrue] \<and>
   addNodeTerminationCondition 10 (addNodeTerminationCondition 9
       (exNode [exReady, exTerminating ConditionTrue])) =
     exNode [exReady, exTerminating ConditionTrue]"
proof -
  have h1: "nodeHasTerminationCondition (exNode [exReady, exTerminating ConditionTrue])"
    by (simp add: merge_defs ex_defs)
  have h2: "\<forall>c \<in> set (Conditions (exNode [exReady, exTerminating ConditionTrue])).
           Type c = terminatingConditionType \<longrightarrow> Status c = ConditionTrue"
    by (simp add: ex_defs)
  have h3: "Type exReady \<noteq> terminatingConditionType \<and>
      Status (exTerminating ConditionTrue) = ConditionTrue"
    by (simp add: ex_defs)
  from merge_noop [OF h1 h2, of 9 10] h1 h3 show ?thesis by blast
qed

text \<open>
  Claim C2 as stated fails: a node with a terminating condition of status True and a
  second one of status False is changed by the merge.
\<close>

theorem merge_noop_counterexample:
  "exTerminating ConditionTrue \<in>
     set (Conditions (exNode [exTerminating ConditionTrue, exTerminating ConditionFalse])) \<and>
   Type (exTerminating ConditionTrue) = terminatingConditionType \<and>
   Status (exTerminating ConditionTrue) = ConditionTrue \<and>
   Conditions (addNodeTerminationCondition 9
       (exNode [exTerminating ConditionTrue, exTerminating ConditionFalse])) \<noteq>
     Conditions (exNode [exTerminating ConditionTrue, exTerminating ConditionFalse])"
  by (simp add: merge_defs ex_defs)

text \<open>
  Claim C9, as amended. After the merge the node has a terminating condition, and every
  terminating condition has status True and is either the newly built condition (with the
  fixed reason and message) or a condition that the node already had.
\<close>

theorem merge_all_true:
  "nodeHasTerminationCondition (addNodeTerminationCondition now node) \<and>
   (\<forall>c \<in> set (Conditions (addNodeTerminationCondition now node)).
      Type c = terminatingConditionType \<longrightarrow>
        Status c = ConditionTrue \<and>
        (c = terminatingCondition now \<or> c \<in> set (Conditions node)))"
  using add_has add_all_True add_origin by blast

text \<open>
  The theorem of claim C9 at a node with three terminating conditions, of status False,
  Unknown and True.
\<close>

theorem merge_all_true_witness:
  "nodeHasTerminationCondition (addNodeTerminationCondition 9
      (exNode [exTerminating ConditionFalse, exTerminating ConditionUnknown, exTerminating ConditionTrue])) \<and>
   Conditions (addNodeTerminationCondition 9
      (exNode [exTerminating ConditionFalse, exTerminating ConditionUnknown, exTerminating ConditionTrue])) =
     [terminatingCondition 9, terminatingCondition 9, exTerminating ConditionTrue] \<and>
   Type (terminatingCondition 9) = terminatingConditionType \<and>
   Status (terminatingCondition 9) = ConditionTrue \<and>
   Status (exTerminating ConditionTrue) = ConditionTrue"
  using merge_all_true [of 9 "exNode [exTerminating ConditionFalse, exTerminating ConditionUnknown, exTerminating ConditionTrue]"]
  by (simp add: merge_defs ex_defs)

text \<open>
  Claim C9 as stated fails: a terminating condition that already has status True keeps
  its own reason and message.
\<close>

theorem merge_reason_counterexample:
  "exTerminating ConditionTrue \<in>
     set (Conditions (addNodeTerminationCondition 9 (exNode [exTerminating ConditionTrue]))) \<and>
   Type (exTerminating ConditionTrue) = terminatingConditionType \<and>
   Reason (exTerminating ConditionTrue) \<noteq> terminationRequestedReason \<and>
   Message (exTerminating ConditionTrue) \<noteq> terminationMessage"
  by (simp add: merge_defs ex_defs)

section \<open>The claims about reconciliation\<close>

text \<open>
  Claim C10. When the fetch succeeds, \<^verbatim>\<open>markNodeForDeletion\<close> makes exactly one status
  write, of the merged node, right after the fetch; the write does not depend on whether
  the merge changed anything.
\<close>

theorem update_always_written:
  assumes "clientGet env name = Inr node"
  shows "trace (snd (markNodeForDeletion env name s)) =
           trace s @ [NodeGet name,
                      StatusUpdate (addNodeTerminationCondition (metav1Now env) node)] \<and>
         length (filter isStatusUpdate (trace (snd (markNodeForDeletion env name s)))) =
           Suc (length (filter isStatusUpdate (trace s)))"
  using assms
  by (simp add: markNodeForDeletion_def emit_def isStatusUpdate_def Let_def split: option.splits)

text \<open>
  The theorem of claim C10 at a node that already carries a terminating condition of
  status True: the merge changes nothing and the status is written all the same.
\<close>

theorem update_always_written_witness:
  "clientGet (exEnv 0 404 200 [] [] [exReady, exTerminating ConditionTrue] None) ''node-1'' =
     Inr (exNode [exReady, exTerminating ConditionTrue]) \<and>
   addNodeTerminationCondition 9 (exNode [exReady, exTerminating ConditionTrue]) =
     exNode [exReady, exTerminating ConditionTrue] \<and>
   trace (snd (markNodeForDeletion
       (exEnv 0 404 200 [] [] [exReady, exTerminating ConditionTrue] None) ''node-1'' initState)) =
     [NodeGet ''node-1'', StatusUpdate (exNode [exReady, exTerminating ConditionTrue])]"
proof -
  let ?env = "exEnv 0 404 200 [] [] [exReady, exTerminating ConditionTrue] None"
  have h: "clientGet ?env ''node-1'' = Inr (exNode [exReady, exTerminating ConditionTrue])"
    by (simp add: exEnv_def)
  have n: "addNodeTerminationCondition 9 (exNode [exReady, exTerminating ConditionTrue]) =
     exNode [exReady, exTerminating ConditionTrue]"
    by (simp add: merge_defs ex_defs)
  have m: "metav1Now ?env = 9" by (simp add: exEnv_def)
  from update_always_written [OF h, of initState] h n m show ?thesis
    by (simp add: initState_def)
qed

section \<open>The claims about polling\<close>

text \<open>
  Claim C4. For each of the three variants: when the stop is not observed during the
  first \<open>k\<close> interval waits, the first \<open>k\<close> probes report not terminating and the next one
  reports terminating, then the run makes a probe first, then \<open>k\<close> times an interval wait
  and a probe, and then one reconciliation; it makes \<open>k + 1\<close> round trips.
\<close>

theorem probes_then_reconcile:
  assumes "k \<le> stopAfter env"
  shows
  "((\<forall>j<k. probeResult (awsCondition env) j = Inr False) \<and>
    probeResult (awsCondition env) k = Inr True \<longrightarrow>
      (\<exists>e tr. isProbe e \<and>
         trace (snd (awsRun env h initState)) = e # concat (replicate k [Wait, e]) @ tr \<and>
         reconciledOnce (nodeName h) tr \<and>
         requests (snd (awsRun env h initState)) = Suc k)) \<and>
   ((\<forall>j<k. probeResult (azureCondition env) j = Inr False) \<and>
    probeResult (azureCondition env) k = Inr True \<longrightarrow>
      (\<exists>e tr. isProbe e \<and>
         trace (snd (azureRun env h initState)) = e # concat (replicate k [Wait, e]) @ tr \<and>
         reconciledOnce (nodeName h) tr \<and>
         requests (snd (azureRun env h initState)) = Suc k)) \<and>
   ((\<forall>j<k. probeResult (gcpCondition env) j = Inr False) \<and>
    probeResult (gcpCondition env) k = Inr True \<longrightarrow>
      (\<exists>e tr. isProbe e \<and>
         trace (snd (gcpRun env h initState)) = e # concat (replicate k [Wait, e]) @ tr \<and>
         reconciledOnce (nodeName h) tr \<and>
         requests (snd (gcpRun env h initState)) = Suc k))"
proof (intro conjI impI)
  assume a: "(\<forall>j<k. probeResult (awsCondition env) j = Inr False) \<and>
    probeResult (awsCondition env) k = Inr True"
  have "awsRun env h initState = finish env h (polled k (HttpGet awsTerminationEndpointURL))"
    using run_terminating [OF aws_uniform _ _ assms] a by (intro awsRun_finish) blast
  then show "\<exists>e tr. isProbe e \<and>
         trace (snd (awsRun env h initState)) = e # concat (replicate k [Wait, e]) @ tr \<and>
         reconciledOnce (nodeName h) tr \<and>
         requests (snd (awsRun env h initState)) = Suc k"
    using finish_polled [of env h k "HttpGet awsTerminationEndpointURL"] isProbe_simps(1) by metis
next
  assume a: "(\<forall>j<k. probeResult (azureCondition env) j = Inr False) \<and>
    probeResult (azureCondition env) k = Inr True"
  then obtain req0 where r: "httpNewRequest env ''GET'' azureTerminationEndpointURL = Inr req0"
    using azure_request_made by blast
  let ?e = "HttpDo (headerAdd ''Metadata'' ''true'' req0)"
  have "azureRun env h initState = finish env h (polled k ?e)"
    using run_terminating [OF azure_uniform [OF r] _ _ assms] a by (intro azureRun_finish) blast
  then show "\<exists>e tr. isProbe e \<and>
         trace (snd (azureRun env h initState)) = e # concat (replicate k [Wait, e]) @ tr \<and>
         reconciledOnce (nodeName h) tr \<and>
         requests (snd (azureRun env h initState)) = Suc k"
    using finish_polled [of env h k ?e] isProbe_simps(2) by metis
next
  assume a: "(\<forall>j<k. probeResult (gcpCondition env) j = Inr False) \<and>
    probeResult (gcpCondition env) k = Inr True"
  then obtain req0 where r: "httpNewRequest env ''GET'' gcpTerminationEndpointURL = Inr req0"
    using gcp_request_made by blast
  let ?e = "HttpDo (headerAdd ''Metadata-Flavor'' ''Google'' req0)"
  have "gcpRun env h initState = finish env h (polled k ?e)"
    using run_terminating [OF gcp_uniform [OF r] _ _ assms] a by (intro gcpRun_finish) blast
  then show "\<exists>e tr. isProbe e \<and>
         trace (snd (gcpRun env h initState)) = e # concat (replicate k [Wait, e]) @ tr \<and>
         reconciledOnce (nodeName h) tr \<and>
         requests (snd (gcpRun env h initState)) = Suc k"
    using finish_polled [of env h k ?e] isProbe_simps(2) by metis
qed

text \<open>
  The theorem of claim C4 with \<open>k = 2\<close>, once for each variant: two quiet answers (status
  404, a reboot event, the text FALSE), then the terminating one.
\<close>

theorem probes_then_reconcile_witness:
  "(\<exists>e tr. isProbe e \<and>
      trace (snd (awsRun (exEnv 2 404 200 [] [] [exReady] None) exHandler initState)) =
        e # concat (replicate 2 [Wait, e]) @ tr \<and>
      reconciledOnce ''node-1'' tr \<and>
      requests (snd (awsRun (exEnv 2 404 200 [] [] [exReady] None) exHandler initState)) = 3) \<and>
   (\<exists>e tr. isProbe e \<and>
      trace (snd (azureRun (exEnv 2 404 200 exRebootBody exPreemptBody [exReady] None)
                exHandler initState)) =
        e # concat (replicate 2 [Wait, e]) @ tr \<and>
      reconciledOnce ''node-1'' tr \<and>
      requests (snd (azureRun (exEnv 2 404 200 exRebootBody exPreemptBody [exReady] None)
                exHandler initState)) = 3) \<and>
   (\<exists>e tr. isProbe e \<and>
      trace (snd (gcpRun (exEnv 2 404 200 ''FALSE'' ''TRUE'' [exReady] None)
                exHandler initState)) =
        e # concat (replicate 2 [Wait, e]) @ tr \<and>
      reconciledOnce ''node-1'' tr \<and>
      requests (snd (gcpRun (exEnv 2 404 200 ''FALSE'' ''TRUE'' [exReady] None)
                exHandler initState)) = 3)"
proof -
  let ?A = "exEnv 2 404 200 [] [] [exReady] None"
  let ?B = "exEnv 2 404 200 exRebootBody exPreemptBody [exReady] None"
  let ?C = "exEnv 2 404 200 ''FALSE'' ''TRUE'' [exReady] None"
  have nA: "2 \<le> stopAfter ?A" and nB: "2 \<le> stopAfter ?B" and nC: "2 \<le> stopAfter ?C"
    by (simp_all add: exEnv_def)
  have A: "(\<forall>j<2. probeResult (awsCondition ?A) j = Inr False) \<and>
      probeResult (awsCondition ?A) 2 = Inr True"
    by (simp add: probeResult_def awsCondition_def exEnv_def Let_def)
  have B: "(\<forall>j<2. probeResult (azureCondition ?B) j = Inr False) \<and>
      probeResult (azureCondition ?B) 2 = Inr True"
    by (simp add: probeResult_def azureCondition_def env_defs Let_def preemptEventType_def)
  have C: "(\<forall>j<2. probeResult (gcpCondition ?C) j = Inr False) \<and>
      probeResult (gcpCondition ?C) 2 = Inr True"
    by (simp add: probeResult_def gcpCondition_def exEnv_def Let_def)
  have h: "nodeName exHandler = ''node-1''" by (simp add: exHandler_def)
  from probes_then_reconcile [OF nA, of exHandler] probes_then_reconcile [OF nB, of exHandler]
    probes_then_reconcile [OF nC, of exHandler] A B C h
  show ?thesis by simp
qed

text \<open>
  Claim C5. When the probe of variant A receives a response, it reports not terminating
  for status 404, terminating for status 200, and fails with the unexpected status
  otherwise. After a 404 the loop goes on to the next interval wait and probe, as long as
  the stop has not been observed; any status other than 404 and 200 ends the run with the
  wrapped error, and the run has made probes and waits but no reconciliation.
\<close>

theorem aws_status_signal:
  assumes "httpGet env (requests s) awsTerminationEndpointURL = Inr resp"
  shows
  "fst (awsCondition env s) =
     (if StatusCode resp = 404 then Inr False
      else if StatusCode resp = 200 then Inr True
      else Inl (''unexpected status: '' @ showInt (StatusCode resp))) \<and>
   ((\<forall>j<requests s. probeResult (awsCondition env) j = Inr False) \<and>
    StatusCode resp = 404 \<and> requests s < stopAfter env \<longrightarrow>
      PollImmediateUntil (stopAfter env) (awsCondition env) initState =
        waitFor (Suc (stopAfter env - Suc (requests s))) (awsCondition env)
          (polled (requests s) (HttpGet awsTerminationEndpointURL))) \<and>
   ((\<forall>j<requests s. probeResult (awsCondition env) j = Inr False) \<and>
    StatusCode resp \<noteq> 404 \<and> StatusCode resp \<noteq> 200 \<and> requests s \<le> stopAfter env \<longrightarrow>
      awsRun env h initState =
        (Some (''error polling termination endpoint: '' @
               ''unexpected status: '' @ showInt (StatusCode resp)),
         polled (requests s) (HttpGet awsTerminationEndpointURL)))"
proof (intro conjI impI)
  show p: "fst (awsCondition env s) =
     (if StatusCode resp = 404 then Inr False
      else if StatusCode resp = 200 then Inr True
      else Inl (''unexpected status: '' @ showInt (StatusCode resp)))"
    using assms by (rule aws_probe)
  have r: "probeResult (awsCondition env) (requests s) = fst (awsCondition env s)"
    using probeResult_fst [OF aws_uniform] by simp
  {
    assume a: "(\<forall>j<requests s. probeResult (awsCondition env) j = Inr False) \<and>
      StatusCode resp = 404 \<and> requests s < stopAfter env"
    then have "probeResult (awsCondition env) (requests s) = Inr False"
      using p r by simp
    with a have "\<forall>j<Suc (requests s). probeResult (awsCondition env) j = Inr False"
      by (simp add: less_Suc_eq)
    moreover have "requests s \<le> stopAfter env" using a by simp
    ultimately have "PollImmediateUntil (stopAfter env) (awsCondition env) initState =
        waitFor (stopAfter env - requests s) (awsCondition env)
          (polled (requests s) (HttpGet awsTerminationEndpointURL))"
      by (rule PollImmediateUntil_continue [OF aws_uniform])
    moreover have "stopAfter env - requests s = Suc (stopAfter env - Suc (requests s))"
      using a by (simp add: Suc_diff_Suc)
    ultimately show "PollImmediateUntil (stopAfter env) (awsCondition env) initState =
        waitFor (Suc (stopAfter env - Suc (requests s))) (awsCondition env)
          (polled (requests s) (HttpGet awsTerminationEndpointURL))"
      by simp
  }
  {
    assume a: "(\<forall>j<requests s. probeResult (awsCondition env) j = Inr False) \<and>
      StatusCode resp \<noteq> 404 \<and> StatusCode resp \<noteq> 200 \<and> requests s \<le> stopAfter env"
    then have "probeResult (awsCondition env) (requests s) =
        Inl (''unexpected status: '' @ showInt (StatusCode resp))"
      using p r by simp
    then have "PollImmediateUntil (stopAfter env) (awsCondition env) initState =
        (Some (''unexpected status: '' @ showInt (StatusCode resp)),
         polled (requests s) (HttpGet awsTerminationEndpointURL))"
      using a by (intro run_failing [OF aws_uniform]) auto
    then show "awsRun env h initState =
        (Some (''error polling termination endpoint: '' @
               ''unexpected status: '' @ showInt (StatusCode resp)),
         polled (requests s) (HttpGet awsTerminationEndpointURL))"
      by (simp add: awsRun_def)
  }
qed

text \<open>
  The theorem of claim C5 at an endpoint that answers 404 and then 500.
\<close>

theorem aws_status_signal_witness:
  "httpGet (exEnv 1 404 500 [] [] [exReady] None) 1 awsTerminationEndpointURL =
     Inr \<lparr> StatusCode = 500, Body = Inr [] \<rparr> \<and>
   probeResult (awsCondition (exEnv 1 404 500 [] [] [exReady] None)) 0 = Inr False \<and>
   fst (awsCondition (exEnv 1 404 500 [] [] [exReady] None) \<lparr> requests = 1, trace = [] \<rparr>) =
     Inl ''unexpected status: 500'' \<and>
   awsRun (exEnv 1 404 500 [] [] [exReady] None) exHandler initState =
     (Some ''error polling termination endpoint: unexpected status: 500'',
      polled 1 (HttpGet awsTerminationEndpointURL)) \<and>
   PollImmediateUntil 10 (awsCondition (exEnv 1 404 500 [] [] [exReady] None)) initState =
     waitFor 10 (awsCondition (exEnv 1 404 500 [] [] [exReady] None))
       (polled 0 (HttpGet awsTerminationEndpointURL))"
proof -
  let ?env = "exEnv 1 404 500 [] [] [exReady] None"
  let ?s = "\<lparr> requests = 1, trace = [] \<rparr>"
  have h: "httpGet ?env (requests ?s) awsTerminationEndpointURL =
      Inr \<lparr> StatusCode = 500, Body = Inr [] \<rparr>"
    by (simp add: exEnv_def)
  have h0: "httpGet ?env (requests initState) awsTerminationEndpointURL =
      Inr \<lparr> StatusCode = 404, Body = Inr [] \<rparr>"
    by (simp add: exEnv_def initState_def)
  have p: "\<forall>j<requests ?s. probeResult (awsCondition ?env) j = Inr False"
    by (simp add: probeResult_def awsCondition_def exEnv_def Let_def)
  have n: "stopAfter ?env = 10" by (simp add: exEnv_def)
  from aws_status_signal [OF h, of exHandler] aws_status_signal [OF h0, of exHandler] h p n
  show ?thesis
    by (simp add: showInt_500 initState_def)
qed

text \<open>
  Claim C6. When the probe of variant B receives a body that \<^verbatim>\<open>json.Unmarshal\<close> accepts,
  it reports terminating exactly when one of the events has the type Preempt. When the body
  is rejected the probe fails with the parse error, and the run ends with that error,
  wrapped, having made probes and waits but no reconciliation.
\<close>

theorem azure_event_signal:
  assumes "httpNewRequest env ''GET'' azureTerminationEndpointURL = Inr req0"
    and "httpDo env (requests s) (headerAdd ''Metadata'' ''true'' req0) = Inr resp"
    and "Body resp = Inr body"
  shows
  "(\<forall>se. jsonUnmarshal env body = Inr se \<longrightarrow>
      fst (azureCondition env s) =
        Inr (\<exists>e \<in> set (Events se). EventType e = ''Preempt'')) \<and>
   (\<forall>err. jsonUnmarshal env body = Inl err \<longrightarrow>
      fst (azureCondition env s) = Inl (''failed to unmarshal responce body: '' @ err) \<and>
      ((\<forall>j<requests s. probeResult (azureCondition env) j = Inr False) \<and>
       requests s \<le> stopAfter env \<longrightarrow>
         azureRun env h initState =
           (Some (''error polling termination endpoint: '' @
                  ''failed to unmarshal responce body: '' @ err),
            polled (requests s) (HttpDo (headerAdd ''Metadata'' ''true'' req0)))))"
proof (intro conjI allI impI)
  fix se assume "jsonUnmarshal env body = Inr se"
  then show "fst (azureCondition env s) =
        Inr (\<exists>e \<in> set (Events se). EventType e = ''Preempt'')"
    using azure_probe [OF assms] by (simp add: preemptEventType_def)
next
  fix err assume e: "jsonUnmarshal env body = Inl err"
  then show p: "fst (azureCondition env s) = Inl (''failed to unmarshal responce body: '' @ err)"
    using azure_probe [OF assms] by simp
  assume a: "(\<forall>j<requests s. probeResult (azureCondition env) j = Inr False) \<and>
       requests s \<le> stopAfter env"
  let ?e = "HttpDo (headerAdd ''Metadata'' ''true'' req0)"
  have u: "uniformProbe (azureCondition env) ?e"
    using assms(1) by (rule azure_uniform)
  have "probeResult (azureCondition env) (requests s) =
      Inl (''failed to unmarshal responce body: '' @ err)"
    using probeResult_fst [OF u, of s] p by simp
  then have "PollImmediateUntil (stopAfter env) (azureCondition env) initState =
      (Some (''failed to unmarshal responce body: '' @ err), polled (requests s) ?e)"
    using a by (intro run_failing [OF u]) auto
  then show "azureRun env h initState =
           (Some (''error polling termination endpoint: '' @
                  ''failed to unmarshal responce body: '' @ err),
            polled (requests s) ?e)"
    by (simp add: azureRun_def)
qed

text \<open>
  The theorem of claim C6 at a reboot event, at a preempt event, and at a body that is
  not JSON.
\<close>

theorem azure_event_signal_witness:
  "fst (azureCondition (exEnv 1 404 200 exRebootBody exPreemptBody [exReady] None) initState) =
     Inr False \<and>
   fst (azureCondition (exEnv 1 404 200 exRebootBody exPreemptBody [exReady] None)
          \<lparr> requests = 1, trace = [] \<rparr>) = Inr True \<and>
   azureRun (exEnv 1 404 200 exRebootBody ''{'' [exReady] None) exHandler initState =
     (Some (''error polling termination endpoint: '' @
            ''failed to unmarshal responce body: '' @ ''unexpected end of JSON input''),
      polled 1 (HttpDo \<lparr> Method = ''GET'', URL = azureTerminationEndpointURL,
                         Header = [(''Metadata'', ''true'')] \<rparr>))"
proof -
  let ?env = "exEnv 1 404 200 exRebootBody exPreemptBody [exReady] None"
  let ?bad = "exEnv 1 404 200 exRebootBody ''{'' [exReady] None"
  let ?req0 = "\<lparr> Method = ''GET'', URL = azureTerminationEndpointURL, Header = [] \<rparr>"
  let ?s1 = "\<lparr> requests = 1, trace = [] \<rparr>"
  have r: "httpNewRequest ?env ''GET'' azureTerminationEndpointURL = Inr ?req0"
    by (simp add: exEnv_def)
  have d0: "httpDo ?env (requests initState) (headerAdd ''Metadata'' ''true'' ?req0) =
      Inr \<lparr> StatusCode = 200, Body = Inr exRebootBody \<rparr>"
    by (simp add: exEnv_def initState_def)
  have d1: "httpDo ?env (requests ?s1) (headerAdd ''Metadata'' ''true'' ?req0) =
      Inr \<lparr> StatusCode = 200, Body = Inr exPreemptBody \<rparr>"
    by (simp add: exEnv_def)
  have u0: "jsonUnmarshal ?env exRebootBody = Inr \<lparr> Events = [\<lparr> EventType = ''Reboot'' \<rparr>] \<rparr>"
    by (simp add: env_defs)
  have u1: "jsonUnmarshal ?env exPreemptBody = Inr \<lparr> Events = [\<lparr> EventType = ''Preempt'' \<rparr>] \<rparr>"
    by (simp add: env_defs)
  have a: "fst (azureCondition ?env initState) = Inr False"
    using azure_event_signal [OF r d0, of exRebootBody exHandler] u0 by simp
  have b: "fst (azureCondition ?env ?s1) = Inr True"
    using azure_event_signal [OF r d1, of exPreemptBody exHandler] u1 by simp
  have r': "httpNewRequest ?bad ''GET'' azureTerminationEndpointURL = Inr ?req0"
    by (simp add: exEnv_def)
  have d': "httpDo ?bad (requests ?s1) (headerAdd ''Metadata'' ''true'' ?req0) =
      Inr \<lparr> StatusCode = 200, Body = Inr ''{'' \<rparr>"
    by (simp add: exEnv_def)
  have u': "jsonUnmarshal ?bad ''{'' = Inl ''unexpected end of JSON input''"
    by (simp add: env_defs)
  have p': "\<forall>j<requests ?s1. probeResult (azureCondition ?bad) j = Inr False"
    by (simp add: probeResult_def azureCondition_def env_defs Let_def headerAdd_def
        preemptEventType_def)
  have n: "requests ?s1 \<le> stopAfter ?bad" by (simp add: exEnv_def)
  have c: "azureRun ?bad exHandler initState =
     (Some (''error polling termination endpoint: '' @
            ''failed to unmarshal responce body: '' @ ''unexpected end of JSON input''),
      polled 1 (HttpDo (headerAdd ''Metadata'' ''true'' ?req0)))"
    using azure_event_signal [OF r' d', of "''{''" exHandler] u' p' n by simp
  from a b c show ?thesis by (simp add: headerAdd_def)
qed

text \<open>
  Claim C7. When the probe of variant C receives a body, it reports terminating exactly
  when the body is the text TRUE; after any other body the loop goes on to the next
  interval wait and probe, as long as the stop has not been observed.
\<close>

theorem gcp_text_signal:
  assumes "httpNewRequest env ''GET'' gcpTerminationEndpointURL = Inr req0"
    and "httpDo env (requests s) (headerAdd ''Metadata-Flavor'' ''Google'' req0) = Inr resp"
    and "Body resp = Inr body"
  shows
  "fst (gcpCondition env s) = Inr (body = ''TRUE'') \<and>
   ((\<forall>j<requests s. probeResult (gcpCondition env) j = Inr False) \<and>
    body \<noteq> ''TRUE'' \<and> requests s < stopAfter env \<longrightarrow>
      PollImmediateUntil (stopAfter env) (gcpCondition env) initState =
        waitFor (Suc (stopAfter env - Suc (requests s))) (gcpCondition env)
          (polled (requests s) (HttpDo (headerAdd ''Metadata-Flavor'' ''Google'' req0))))"
proof (intro conjI impI)
  show p: "fst (gcpCondition env s) = Inr (body = ''TRUE'')"
    using assms by (rule gcp_probe)
  let ?e = "HttpDo (headerAdd ''Metadata-Flavor'' ''Google'' req0)"
  have u: "uniformProbe (gcpCondition env) ?e"
    using assms(1) by (rule gcp_uniform)
  assume a: "(\<forall>j<requests s. probeResult (gcpCondition env) j = Inr False) \<and>
    body \<noteq> ''TRUE'' \<and> requests s < stopAfter env"
  then have "probeResult (gcpCondition env) (requests s) = Inr False"
    using probeResult_fst [OF u, of s] p by simp
  with a have "\<forall>j<Suc (requests s). probeResult (gcpCondition env) j = Inr False"
    by (simp add: less_Suc_eq)
  moreover have "requests s \<le> stopAfter env" using a by simp
  ultimately have "PollImmediateUntil (stopAfter env) (gcpCondition env) initState =
      waitFor (stopAfter env - requests s) (gcpCondition env) (polled (requests s) ?e)"
    by (rule PollImmediateUntil_continue [OF u])
  moreover have "stopAfter env - requests s = Suc (stopAfter env - Suc (requests s))"
    using a by (simp add: Suc_diff_Suc)
  ultimately show "PollImmediateUntil (stopAfter env) (gcpCondition env) initState =
        waitFor (Suc (stopAfter env - Suc (requests s))) (gcpCondition env)
          (polled (requests s) ?e)"
    by simp
qed

text \<open>
  The theorem of claim C7 at an endpoint that answers FALSE and then TRUE.
\<close>

theorem gcp_text_signal_witness:
  "fst (gcpCondition (exEnv 1 404 200 ''FALSE'' ''TRUE'' [exReady] None) initState) =
     Inr False \<and>
   fst (gcpCondition (exEnv 1 404 200 ''FALSE'' ''TRUE'' [exReady] None)
          \<lparr> requests = 1, trace = [] \<rparr>) = Inr True \<and>
   PollImmediateUntil 10 (gcpCondition (exEnv 1 404 200 ''FALSE'' ''TRUE'' [exReady] None))
       initState =
     waitFor 10 (gcpCondition (exEnv 1 404 200 ''FALSE'' ''TRUE'' [exReady] None))
       (polled 0 (HttpDo \<lparr> Method = ''GET'', URL = gcpTerminationEndpointURL,
                          Header = [(''Metadata-Flavor'', ''Google'')] \<rparr>))"
proof -
  let ?env = "exEnv 1 404 200 ''FALSE'' ''TRUE'' [exReady] None"
  let ?req0 = "\<lparr> Method = ''GET'', URL = gcpTerminationEndpointURL, Header = [] \<rparr>"
  let ?s1 = "\<lparr> requests = 1, trace = [] \<rparr>"
  have r: "httpNewRequest ?env ''GET'' gcpTerminationEndpointURL = Inr ?req0"
    by (simp add: exEnv_def)
  have d0: "httpDo ?env (requests initState) (headerAdd ''Metadata-Flavor'' ''Google'' ?req0) =
      Inr \<lparr> StatusCode = 200, Body = Inr ''FALSE'' \<rparr>"
    by (simp add: exEnv_def initState_def)
  have d1: "httpDo ?env (requests ?s1) (headerAdd ''Metadata-Flavor'' ''Google'' ?req0) =
      Inr \<lparr> StatusCode = 200, Body = Inr ''TRUE'' \<rparr>"
    by (simp add: exEnv_def)
  have n: "stopAfter ?env = 10" by (simp add: exEnv_def)
  have a: "fst (gcpCondition ?env initState) = Inr False \<and>
      PollImmediateUntil 10 (gcpCondition ?env) initState =
        waitFor 10 (gcpCondition ?env)
          (polled 0 (HttpDo (headerAdd ''Metadata-Flavor'' ''Google'' ?req0)))"
    using gcp_text_signal [OF r d0, of "''FALSE''"] n by (simp add: initState_def)
  have b: "fst (gcpCondition ?env ?s1) = Inr True"
    using gcp_text_signal [OF r d1, of "''TRUE''"] by simp
  from a b show ?thesis by (simp add: headerAdd_def)
qed

section \<open>The claim about error propagation\<close>

text \<open>
  Claim C8 at a failing status write: the fetch succeeds and the write fails. The error
  that \<^verbatim>\<open>Run\<close> returns names the operation, but it is the same whatever the cause of the
  failure was; the cause is not part of it.
\<close>

theorem update_cause_dropped:
  "awsHandlerRun ErrReceived
     (exEnv 0 404 200 [] [] [exReady] (Some ''etcdserver: request timed out'')) exHandler =
     Some ''error marking machine: error updating node status'' \<and>
   awsHandlerRun ErrReceived
     (exEnv 0 404 200 [] [] [exReady] (Some ''the object has been modified'')) exHandler =
     Some ''error marking machine: error updating node status''"
  by (simp add: awsHandlerRun_def Run_def awsRun_def PollImmediateUntil_def awsCondition_def
      markNodeForDeletion_def exEnv_def exHandler_def initState_def Let_def)

end
